theory Spec2Isabelle
  imports
    Complex_Main
    "HOL-Library.Char_ord"
    "HOL-Library.List_Lexorder"
    "HOL-Library.Product_Lexorder"
    "HOL-Library.Sublist"
begin

section \<open>The restaurant dashboard of \<open>my-swiggy-dashboard/app.py\<close>\<close>

text \<open>
  The program loads one CSV file into a pandas data frame \<open>df\<close> at import time and
  registers two callbacks, \<open>set_cities_options\<close> and \<open>update_graphs\<close>, that read
  \<open>df\<close>. The embedding follows the module from top to bottom: the data frame and its
  cells, the two callbacks on values, the same callbacks on the data frame objects of
  the process with a dispatcher that runs them one after the other, and the loading
  stage.

  A float is modelled as a \<open>real\<close>: the program only compares prices, and the
  comparison of two floats that are not NaN is the comparison of their values. A string
  is the list of the bytes of its UTF-8 encoding. On such lists substring containment,
  splitting at a separator and the lexicographic order agree with the same operations of
  Python on code points, since no encoded character is a part of another one and the
  order of the encodings is the order of the code points.
\<close>

subsection \<open>Rows, frames and masks\<close>

text \<open>
  A row of \<open>df\<close> after the cleaning stage. The columns named in the \<open>dropna\<close> call
  hold no NaN; \<open>Restaurant\<close> is not named there and may still be missing.
\<close>

record row =
  Restaurant :: "string option"
  State :: string
  City :: string
  Price :: real
  Avg_ratings :: real
  Food_type :: string

text \<open>
  A data frame of the callbacks is either a frame with the six columns and some rows, or
  the frame without any column and without any row. The second one is what
  \<open>frame[key]\<close> returns when \<open>key\<close> is a Series without elements whose dtype is
  \<open>object\<close>: pandas accepts a key as a boolean mask only if it is a non-empty array of
  booleans (or has dtype \<open>bool\<close>), and takes every other list-like key as a list of
  column labels, here the empty list of labels.
\<close>

datatype frame = Frame "row list" | No_Columns

fun frame_rows :: "frame \<Rightarrow> row list" where
  "frame_rows (Frame rs) = rs"
| "frame_rows No_Columns = []"

text \<open>
  A Series used as an indexing key. Comparisons and \<open>isin\<close> always produce dtype
  \<open>bool\<close>. \<open>Series.apply\<close> infers the dtype from the results, and on a Series
  without elements it returns an empty Series of the dtype it was given, which for the
  string column \<open>Food type\<close> is \<open>object\<close>.
\<close>

datatype mask = Bool_Mask "bool list" | Empty_Object

datatype error = IndexError | KeyError string | ValueError string

text \<open>Column access \<open>frame['name']\<close>: raises \<open>KeyError\<close> when the column is missing.\<close>

fun column :: "string \<Rightarrow> (row \<Rightarrow> 'a) \<Rightarrow> frame \<Rightarrow> error + 'a list" where
  "column name sel (Frame rs) = Inr (map sel rs)"
| "column name sel No_Columns = Inl (KeyError name)"

text \<open>Row selection by a boolean mask aligned with the rows.\<close>

definition select_rows :: "row list \<Rightarrow> bool list \<Rightarrow> row list" where
  "select_rows rs bs = map fst (filter snd (zip rs bs))"

fun getitem :: "frame \<Rightarrow> mask \<Rightarrow> frame" where
  "getitem (Frame rs) (Bool_Mask bs) = Frame (select_rows rs bs)"
| "getitem (Frame rs) Empty_Object = No_Columns"
| "getitem No_Columns m = No_Columns"

text \<open>\<open>Series.apply(f)\<close> with a function that returns booleans.\<close>

definition apply_bool :: "('a \<Rightarrow> bool) \<Rightarrow> 'a list \<Rightarrow> mask" where
  "apply_bool f xs = (if xs = [] then Empty_Object else Bool_Mask (map f xs))"

definition isin :: "'a list \<Rightarrow> 'a list \<Rightarrow> bool list" where
  "isin col vals = map (\<lambda>v. v \<in> set vals) col"

definition copy :: "frame \<Rightarrow> frame" where
  "copy f = f"

subsection \<open>Values received from the dashboard controls\<close>

text \<open>
  A multi-select dropdown sends \<open>None\<close> until something is chosen and a list of strings
  afterwards. \<open>truthy\<close> is Python's truth value of such a value: \<open>None\<close> and the
  empty list are false.
\<close>

type_synonym selection = "string list option"

fun truthy :: "selection \<Rightarrow> bool" where
  "truthy None = False"
| "truthy (Some xs) = (xs \<noteq> [])"

fun chosen :: "selection \<Rightarrow> string list" where
  "chosen None = []"
| "chosen (Some xs) = xs"

text \<open>\<open>price_range[i]\<close> for \<open>i\<close> = 0, 1: \<open>IndexError\<close> beyond the end of the list.\<close>

definition item :: "real list \<Rightarrow> nat \<Rightarrow> error + real" where
  "item xs i = (if i < length xs then Inr (xs ! i) else Inl IndexError)"

text \<open>\<open>needle in haystack\<close> on two strings: substring containment.\<close>

fun str_in :: "string \<Rightarrow> string \<Rightarrow> bool" where
  "str_in needle [] = (needle = [])"
| "str_in needle (c # cs) = (prefix needle (c # cs) \<or> str_in needle cs)"

subsection \<open>The filtering part of \<open>update_graphs\<close>\<close>

text \<open>
  Lines 131 to 146: the value of the local variable \<open>filtered_df\<close> when the figures
  are built. Each of the three categorical filters is applied only if its selection is
  truthy; the cuisine filter builds its mask with \<open>Series.apply\<close>.
\<close>

definition filter_isin ::
  "string \<Rightarrow> (row \<Rightarrow> string) \<Rightarrow> selection \<Rightarrow> frame \<Rightarrow> error + frame" where
  "filter_isin name sel selected f =
     (if truthy selected
      then (case column name sel f of
              Inl e \<Rightarrow> Inl e
            | Inr col \<Rightarrow> Inr (getitem f (Bool_Mask (isin col (chosen selected)))))
      else Inr f)"

definition filter_cuisines :: "selection \<Rightarrow> frame \<Rightarrow> error + frame" where
  "filter_cuisines selected_cuisines f =
     (if truthy selected_cuisines
      then (case column ''Food type'' Food_type f of
              Inl e \<Rightarrow> Inl e
            | Inr col \<Rightarrow>
                Inr (getitem f
                  (apply_bool (\<lambda>x. list_ex (\<lambda>cuisine. str_in cuisine x) (chosen selected_cuisines))
                     col)))
      else Inr f)"

definition filter_price :: "real list \<Rightarrow> row list \<Rightarrow> error + frame" where
  "filter_price price_range rs =
     (case item price_range 0 of
        Inl e \<Rightarrow> Inl e
      | Inr lo \<Rightarrow>
          (case item price_range 1 of
             Inl e \<Rightarrow> Inl e
           | Inr hi \<Rightarrow>
               Inr (getitem (Frame rs)
                 (Bool_Mask (map2 (\<and>) (map (\<lambda>p. lo \<le> p) (map Price rs))
                                        (map (\<lambda>p. p \<le> hi) (map Price rs)))))))"

definition filtered_df ::
  "row list \<Rightarrow> selection \<Rightarrow> selection \<Rightarrow> selection \<Rightarrow> real list \<Rightarrow> error + frame" where
  "filtered_df df selected_states selected_cities selected_cuisines price_range =
     (if \<not> truthy selected_states \<and> \<not> truthy selected_cities \<and> \<not> truthy selected_cuisines
      then Inr (copy (Frame df))
      else
        (case filter_price price_range df of
           Inl e \<Rightarrow> Inl e
         | Inr f0 \<Rightarrow>
             (case filter_isin ''State'' State selected_states f0 of
                Inl e \<Rightarrow> Inl e
              | Inr f1 \<Rightarrow>
                  (case filter_isin ''City'' City selected_cities f1 of
                     Inl e \<Rightarrow> Inl e
                   | Inr f2 \<Rightarrow> filter_cuisines selected_cuisines f2))))"

subsection \<open>String helpers of the cuisine pipeline\<close>

text \<open>
  \<open>s.split(sep)\<close> for a non-empty separator: the pieces between the occurrences of
  \<open>sep\<close>, found from left to right without overlap; the result always has at least
  one piece. The accumulator holds the current piece, reversed.
\<close>

function split_from :: "string \<Rightarrow> string \<Rightarrow> string \<Rightarrow> string list" where
  "split_from sep acc [] = [rev acc]"
| "split_from sep acc (c # cs) =
     (if sep \<noteq> [] \<and> prefix sep (c # cs)
      then rev acc # split_from sep [] (drop (length sep) (c # cs))
      else split_from sep (c # acc) cs)"
  by pat_completeness auto
termination
  by (relation "measure (\<lambda>(sep, acc, s). length s)") (auto simp: neq_Nil_conv)

definition split :: "string \<Rightarrow> string \<Rightarrow> string list" where
  "split sep s = split_from sep [] s"

text \<open>
  \<open>s.strip()\<close>: leading and trailing whitespace removed. The whitespace characters of
  Python are listed by their UTF-8 encodings: the code points 9 to 13, 28 to 32, 133,
  160, 5760, 8192 to 8202, 8232, 8233, 8239, 8287 and 12288.
\<close>

definition whitespace :: "string list" where
  "whitespace =
     [[CHR 0x09], [CHR 0x0A], [CHR 0x0B], [CHR 0x0C], [CHR 0x0D],
      [CHR 0x1C], [CHR 0x1D], [CHR 0x1E], [CHR 0x1F], [CHR 0x20],
      [CHR 0xC2, CHR 0x85], [CHR 0xC2, CHR 0xA0], [CHR 0xE1, CHR 0x9A, CHR 0x80],
      [CHR 0xE2, CHR 0x80, CHR 0x80], [CHR 0xE2, CHR 0x80, CHR 0x81],
      [CHR 0xE2, CHR 0x80, CHR 0x82], [CHR 0xE2, CHR 0x80, CHR 0x83],
      [CHR 0xE2, CHR 0x80, CHR 0x84], [CHR 0xE2, CHR 0x80, CHR 0x85],
      [CHR 0xE2, CHR 0x80, CHR 0x86], [CHR 0xE2, CHR 0x80, CHR 0x87],
      [CHR 0xE2, CHR 0x80, CHR 0x88], [CHR 0xE2, CHR 0x80, CHR 0x89],
      [CHR 0xE2, CHR 0x80, CHR 0x8A], [CHR 0xE2, CHR 0x80, CHR 0xA8],
      [CHR 0xE2, CHR 0x80, CHR 0xA9], [CHR 0xE2, CHR 0x80, CHR 0xAF],
      [CHR 0xE2, CHR 0x81, CHR 0x9F], [CHR 0xE3, CHR 0x80, CHR 0x80]]"

text \<open>
  Removing leading characters of a given list of encodings for as long as one of them
  starts the string; the trailing ones are removed on the reversed string.
\<close>

function lstrip_of :: "string list \<Rightarrow> string \<Rightarrow> string" where
  "lstrip_of ws s =
     (case List.find (\<lambda>w. w \<noteq> [] \<and> prefix w s) ws of
        None \<Rightarrow> s
      | Some w \<Rightarrow> lstrip_of ws (drop (length w) s))"
  by pat_completeness auto
termination
  by (relation "measure (\<lambda>(ws, s). length s)") (auto simp: find_Some_iff prefix_def)

declare lstrip_of.simps [simp del]

definition strip :: "string \<Rightarrow> string" where
  "strip s = rev (lstrip_of (map rev whitespace) (rev (lstrip_of whitespace s)))"

text \<open>
  \<open>Series.explode()\<close> on a Series of lists. Every list here comes from \<open>split\<close>
  and is non-empty, so no element turns into NaN.
\<close>

definition explode :: "'a list list \<Rightarrow> 'a list" where
  "explode xss = concat xss"

subsection \<open>Counting\<close>

text \<open>\<open>Series.unique()\<close>: the distinct values in order of first appearance.\<close>

definition unique :: "'a list \<Rightarrow> 'a list" where
  "unique xs = rev (remdups (rev xs))"

text \<open>
  \<open>value_counts()\<close> pairs each distinct value with its number of occurrences and
  sorts by decreasing count. The order that pandas gives to values of equal count is
  not fixed by its documentation and differs between its versions, so it is a parameter
  of the model: a tie rule gives every value a rank among the entries that are sorted,
  entries of equal count are ordered by increasing rank, and entries of equal count and
  equal rank keep the order of first appearance. Every order of the ties is the order
  of some tie rule (rank each value by its place in that order).
\<close>

type_synonym 'a tie_rule = "('a \<times> nat) list \<Rightarrow> 'a \<Rightarrow> nat"

definition sort_desc :: "'a tie_rule \<Rightarrow> ('a \<times> nat) list \<Rightarrow> ('a \<times> nat) list" where
  "sort_desc ties ps = sort_key (\<lambda>p. (- int (snd p), ties ps (fst p))) ps"

definition value_counts :: "'a tie_rule \<Rightarrow> 'a list \<Rightarrow> ('a \<times> nat) list" where
  "value_counts ties xs = sort_desc ties (map (\<lambda>v. (v, count_list xs v)) (unique xs))"

text \<open>The tie rule that ranks all values alike: ties stay in order of first appearance.\<close>

definition first_seen :: "'a tie_rule" where
  "first_seen ps v = 0"

text \<open>
  \<open>nlargest(n)\<close> keeps the \<open>n\<close> entries with the largest counts, in decreasing
  order; with its default \<open>keep='first'\<close> it prefers, among equal counts, the entries
  that come first in the Series it is given.
\<close>

definition nlargest :: "nat \<Rightarrow> ('a \<times> nat) list \<Rightarrow> ('a \<times> nat) list" where
  "nlargest n ps = take n (sort_key (\<lambda>p. - int (snd p)) ps)"


subsection \<open>The chart data of \<open>update_graphs\<close>\<close>

text \<open>
  Lines 150 to 162. The rendering by plotly is not modelled: a figure is the data handed
  to \<open>px.bar\<close>, \<open>px.pie\<close> and \<open>px.scatter\<close>. \<open>px.scatter\<close> raises
  \<open>ValueError\<close> when the frame lacks the column named for an axis.
\<close>

definition city_counts :: "string tie_rule \<Rightarrow> frame \<Rightarrow> error + (string \<times> nat) list" where
  "city_counts ties f =
     (case column ''City'' City f of
        Inl e \<Rightarrow> Inl e
      | Inr col \<Rightarrow> Inr (nlargest 10 (value_counts ties col)))"

definition cuisine_counts :: "string tie_rule \<Rightarrow> frame \<Rightarrow> error + (string \<times> nat) list" where
  "cuisine_counts ties f =
     (case column ''Food type'' Food_type f of
        Inl e \<Rightarrow> Inl e
      | Inr col \<Rightarrow>
          Inr (nlargest 10
                 (value_counts ties (map strip (explode (map (split '', '') col))))))"

fun scatter_points :: "frame \<Rightarrow> error + (real \<times> real \<times> string option) list" where
  "scatter_points (Frame rs) = Inr (map (\<lambda>r. (Price r, Avg_ratings r, Restaurant r)) rs)"
| "scatter_points No_Columns = Inl (ValueError ''Price'')"

record figures =
  bar_fig :: "(string \<times> nat) list"
  pie_fig :: "(string \<times> nat) list"
  scatter_fig :: "(real \<times> real \<times> string option) list"

definition build_figures :: "string tie_rule \<Rightarrow> frame \<Rightarrow> error + figures" where
  "build_figures ties f =
     (case city_counts ties f of
        Inl e \<Rightarrow> Inl e
      | Inr cities \<Rightarrow>
          (case cuisine_counts ties f of
             Inl e \<Rightarrow> Inl e
           | Inr cuisines \<Rightarrow>
               (case scatter_points f of
                  Inl e \<Rightarrow> Inl e
                | Inr points \<Rightarrow>
                    Inr \<lparr>bar_fig = cities, pie_fig = cuisines, scatter_fig = points\<rparr>)))"

subsection \<open>Module state and the two callbacks\<close>

text \<open>
  The module-level variables that the callbacks can reach, as values. A callback takes
  these values and returns its result together with the values it leaves behind; how it
  runs on the data frame objects of the process follows below.
\<close>

record app =
  df :: "row list"
  all_cuisines :: "string list"

record dropdown_option =
  opt_label :: string
  opt_value :: string

definition set_cities_options :: "app \<Rightarrow> selection \<Rightarrow> dropdown_option list \<times> app" where
  "set_cities_options s selected_states =
     (if \<not> truthy selected_states then ([], s)
      else
        (let filtered = select_rows (df s) (isin (map State (df s)) (chosen selected_states))
         in (map (\<lambda>i. \<lparr>opt_label = i, opt_value = i\<rparr>) (sort (unique (map City filtered))), s)))"

definition update_graphs ::
  "string tie_rule \<Rightarrow> app \<Rightarrow> selection \<Rightarrow> selection \<Rightarrow> selection \<Rightarrow> real list \<Rightarrow>
     (error + figures) \<times> app" where
  "update_graphs ties s selected_states selected_cities selected_cuisines price_range =
     (case filtered_df (df s) selected_states selected_cities selected_cuisines price_range of
        Inl e \<Rightarrow> (Inl e, s)
      | Inr f \<Rightarrow> (build_figures ties f, s))"

subsection \<open>The callbacks on the objects of the process\<close>

text \<open>
  A data frame is an object. The module-level name \<open>df\<close> refers to one object for the
  whole life of the process: no function declares it \<open>global\<close>, so no callback can
  bind it to another one. The calls of a callback create further frames. The process is
  the frame that \<open>df\<close> refers to and the frames created so far, in order of creation; a
  reference is that of \<open>df\<close> or the index of a created frame. A callback only holds
  references it has received from \<open>new_object\<close>; an index beyond the frames created
  reads as the frame without columns.
\<close>

datatype ref = Module_df | Created nat

record process =
  module_df :: frame
  created :: "frame list"

fun read :: "process \<Rightarrow> ref \<Rightarrow> frame" where
  "read p Module_df = module_df p"
| "read p (Created i) = (if i < length (created p) then created p ! i else No_Columns)"

definition new_object :: "frame \<Rightarrow> process \<Rightarrow> ref \<times> process" where
  "new_object f p = (Created (length (created p)), p\<lparr>created := created p @ [f]\<rparr>)"

text \<open>
  A method called with \<open>inplace=True\<close> and an assignment to an item of a frame
  overwrite the object they are applied to. Lines 22 to 24 do this to \<open>df\<close> while the
  data is loaded; a callback that did it to \<open>df\<close> would change the base table.
\<close>

fun overwrite :: "ref \<Rightarrow> frame \<Rightarrow> process \<Rightarrow> process" where
  "overwrite Module_df f p = p\<lparr>module_df := f\<rparr>"
| "overwrite (Created i) f p = p\<lparr>created := (created p)[i := f]\<rparr>"

text \<open>
  \<open>frame[mask]\<close> and \<open>frame.copy()\<close> leave the frame alone and return a new one.
  Reading a column returns its values.
\<close>

definition getitem_run :: "ref \<Rightarrow> mask \<Rightarrow> process \<Rightarrow> ref \<times> process" where
  "getitem_run r m p = new_object (getitem (read p r) m) p"

definition copy_run :: "ref \<Rightarrow> process \<Rightarrow> ref \<times> process" where
  "copy_run r p = new_object (copy (read p r)) p"

text \<open>
  Lines 131 to 146 again, call by call: the local variable \<open>filtered_df\<close> holds a
  reference, and each filter that applies binds it to the frame created by the indexing.
\<close>

definition filter_price_run ::
  "real list \<Rightarrow> ref \<Rightarrow> process \<Rightarrow> (error + ref) \<times> process" where
  "filter_price_run price_range r p =
     (case column ''Price'' Price (read p r) of
        Inl e \<Rightarrow> (Inl e, p)
      | Inr prices \<Rightarrow>
          (case item price_range 0 of
             Inl e \<Rightarrow> (Inl e, p)
           | Inr lo \<Rightarrow>
               (case item price_range 1 of
                  Inl e \<Rightarrow> (Inl e, p)
                | Inr hi \<Rightarrow>
                    (case getitem_run r
                            (Bool_Mask (map2 (\<and>) (map (\<lambda>x. lo \<le> x) prices)
                                                   (map (\<lambda>x. x \<le> hi) prices))) p of
                       (r', p') \<Rightarrow> (Inr r', p')))))"

definition filter_isin_run ::
  "string \<Rightarrow> (row \<Rightarrow> string) \<Rightarrow> selection \<Rightarrow> ref \<Rightarrow> process \<Rightarrow> (error + ref) \<times> process" where
  "filter_isin_run name sel selected r p =
     (if truthy selected
      then (case column name sel (read p r) of
              Inl e \<Rightarrow> (Inl e, p)
            | Inr col \<Rightarrow>
                (case getitem_run r (Bool_Mask (isin col (chosen selected))) p of
                   (r', p') \<Rightarrow> (Inr r', p')))
      else (Inr r, p))"

definition filter_cuisines_run ::
  "selection \<Rightarrow> ref \<Rightarrow> process \<Rightarrow> (error + ref) \<times> process" where
  "filter_cuisines_run selected_cuisines r p =
     (if truthy selected_cuisines
      then (case column ''Food type'' Food_type (read p r) of
              Inl e \<Rightarrow> (Inl e, p)
            | Inr col \<Rightarrow>
                (case getitem_run r
                        (apply_bool
                           (\<lambda>x. list_ex (\<lambda>cuisine. str_in cuisine x) (chosen selected_cuisines))
                           col) p of
                   (r', p') \<Rightarrow> (Inr r', p')))
      else (Inr r, p))"

definition filtered_df_run ::
  "process \<Rightarrow> selection \<Rightarrow> selection \<Rightarrow> selection \<Rightarrow> real list \<Rightarrow> (error + ref) \<times> process" where
  "filtered_df_run p selected_states selected_cities selected_cuisines price_range =
     (if \<not> truthy selected_states \<and> \<not> truthy selected_cities \<and> \<not> truthy selected_cuisines
      then (case copy_run Module_df p of (r, p') \<Rightarrow> (Inr r, p'))
      else
        (case filter_price_run price_range Module_df p of
           (Inl e, p0) \<Rightarrow> (Inl e, p0)
         | (Inr r0, p0) \<Rightarrow>
             (case filter_isin_run ''State'' State selected_states r0 p0 of
                (Inl e, p1) \<Rightarrow> (Inl e, p1)
              | (Inr r1, p1) \<Rightarrow>
                  (case filter_isin_run ''City'' City selected_cities r1 p1 of
                     (Inl e, p2) \<Rightarrow> (Inl e, p2)
                   | (Inr r2, p2) \<Rightarrow> filter_cuisines_run selected_cuisines r2 p2))))"

text \<open>The frame that a returned reference refers to.\<close>

definition view :: "process \<Rightarrow> error + ref \<Rightarrow> error + frame" where
  "view p res = (case res of Inl e \<Rightarrow> Inl e | Inr r \<Rightarrow> Inr (read p r))"

definition filtered_view ::
  "process \<Rightarrow> selection \<Rightarrow> selection \<Rightarrow> selection \<Rightarrow> real list \<Rightarrow> error + frame" where
  "filtered_view p selected_states selected_cities selected_cuisines price_range =
     (case filtered_df_run p selected_states selected_cities selected_cuisines price_range of
        (res, p') \<Rightarrow> view p' res)"

text \<open>
  The two callbacks as they run. The counting calls and the three plotly calls read the
  frame they are given and build their results from what they read.
\<close>

definition update_graphs_run ::
  "string tie_rule \<Rightarrow> process \<Rightarrow> selection \<Rightarrow> selection \<Rightarrow> selection \<Rightarrow> real list \<Rightarrow>
     (error + figures) \<times> process" where
  "update_graphs_run ties p selected_states selected_cities selected_cuisines price_range =
     (case filtered_df_run p selected_states selected_cities selected_cuisines price_range of
        (Inl e, p') \<Rightarrow> (Inl e, p')
      | (Inr r, p') \<Rightarrow> (build_figures ties (read p' r), p'))"

definition set_cities_options_run ::
  "process \<Rightarrow> selection \<Rightarrow> (error + dropdown_option list) \<times> process" where
  "set_cities_options_run p selected_states =
     (if \<not> truthy selected_states then (Inr [], p)
      else
        (case column ''State'' State (read p Module_df) of
           Inl e \<Rightarrow> (Inl e, p)
         | Inr states \<Rightarrow>
             (case getitem_run Module_df (Bool_Mask (isin states (chosen selected_states))) p of
                (r, p') \<Rightarrow>
                  (case column ''City'' City (read p' r) of
                     Inl e \<Rightarrow> (Inl e, p')
                   | Inr cities \<Rightarrow>
                       (Inr (map (\<lambda>i. \<lparr>opt_label = i, opt_value = i\<rparr>) (sort (unique cities))),
                        p')))))"

text \<open>
  The framework calls the callbacks one after the other, each on the process the
  previous one left. The process starts with the loaded table as the object of \<open>df\<close>.
\<close>

datatype event =
  Set_Cities selection
| Update_Graphs selection selection selection "real list"

fun dispatch :: "string tie_rule \<Rightarrow> process \<Rightarrow> event \<Rightarrow> process" where
  "dispatch ties p (Set_Cities sel) = snd (set_cities_options_run p sel)"
| "dispatch ties p (Update_Graphs a b c pr) = snd (update_graphs_run ties p a b c pr)"

definition serve :: "string tie_rule \<Rightarrow> process \<Rightarrow> event list \<Rightarrow> process" where
  "serve ties p evs = foldl (dispatch ties) p evs"

definition start :: "app \<Rightarrow> process" where
  "start s = \<lparr>module_df = Frame (df s), created = []\<rparr>"

text \<open>
  A process has grown out of another one when \<open>df\<close> refers to an equal frame in both
  and every frame created in the earlier one is still there, unchanged.
\<close>

definition grown :: "process \<Rightarrow> process \<Rightarrow> bool" where
  "grown p p' \<longleftrightarrow> module_df p' = module_df p \<and> prefix (created p) (created p')"


subsection \<open>Loading the data\<close>

text \<open>
  One record of the CSV file, as the text of its six fields. \<open>read_csv\<close> turns a field
  whose text is one of its NA markers into NaN (\<open>None\<close>); the list is the default of
  pandas 1.x, the version whose \<open>value_counts().reset_index()\<close> yields the columns
  \<open>index\<close> and \<open>City\<close> that line 151 names. The empty field is the first marker.
\<close>

record csv_record =
  f_Restaurant :: string
  f_State :: string
  f_City :: string
  f_Price :: string
  f_Avg_ratings :: string
  f_Food_type :: string

definition na_values :: "string list" where
  "na_values = ['''', ''#N/A'', ''#N/A N/A'', ''#NA'', ''-1.#IND'', ''-1.#QNAN'', ''-NaN'',
     ''-nan'', ''1.#IND'', ''1.#QNAN'', ''<NA>'', ''N/A'', ''NA'', ''NULL'', ''NaN'', ''n/a'',
     ''nan'', ''null'']"

definition read_cell :: "string \<Rightarrow> string option" where
  "read_cell txt = (if txt \<in> set na_values then None else Some txt)"

record raw_row =
  r_Restaurant :: "string option"
  r_State :: "string option"
  r_City :: "string option"
  r_Price :: "string option"
  r_Avg_ratings :: "string option"
  r_Food_type :: "string option"

definition read_record :: "csv_record \<Rightarrow> raw_row" where
  "read_record c =
     \<lparr>r_Restaurant = read_cell (f_Restaurant c), r_State = read_cell (f_State c),
      r_City = read_cell (f_City c), r_Price = read_cell (f_Price c),
      r_Avg_ratings = read_cell (f_Avg_ratings c), r_Food_type = read_cell (f_Food_type c)\<rparr>"

text \<open>
  \<open>pd.to_numeric(column, errors='coerce')\<close> on one cell. The numeric parser of the
  library is a parameter: a partial map from the text of a cell to the number it denotes;
  text it does not accept becomes NaN.
\<close>

definition to_numeric :: "(string \<rightharpoonup> real) \<Rightarrow> string option \<Rightarrow> real option" where
  "to_numeric parse cell = (case cell of None \<Rightarrow> None | Some txt \<Rightarrow> parse txt)"

text \<open>
  Lines 22 to 24 on one row: both numeric columns are coerced, then \<open>dropna\<close> removes
  the row if any of the five columns of its \<open>subset\<close> is NaN.
\<close>

definition clean_row :: "(string \<rightharpoonup> real) \<Rightarrow> raw_row \<Rightarrow> row option" where
  "clean_row parse r =
     (case (to_numeric parse (r_Price r), to_numeric parse (r_Avg_ratings r),
            r_State r, r_City r, r_Food_type r) of
        (Some p, Some a, Some s, Some c, Some f) \<Rightarrow>
          Some \<lparr>Restaurant = r_Restaurant r, State = s, City = c, Price = p,
                Avg_ratings = a, Food_type = f\<rparr>
      | _ \<Rightarrow> None)"

definition clean :: "(string \<rightharpoonup> real) \<Rightarrow> raw_row list \<Rightarrow> row list" where
  "clean parse rs = List.map_filter (clean_row parse) rs"

definition load :: "(string \<rightharpoonup> real) \<Rightarrow> csv_record list \<Rightarrow> row list" where
  "load parse recs = clean parse (map read_record recs)"

definition cuisine_vocabulary :: "row list \<Rightarrow> string list" where
  "cuisine_vocabulary rs =
     sort (unique (map strip (explode (map (split '', '') (map Food_type rs)))))"

text \<open>
  The file system as the program sees it: a path that is absent makes \<open>read_csv\<close>
  raise \<open>FileNotFoundError\<close>; a path that is present but cannot be read or parsed
  makes it raise another exception, whose text the file state carries. The world also
  counts the read attempts and collects what the process writes: \<open>stdout\<close> holds
  what the program prints, \<open>stderr\<close> what the interpreter reports.
\<close>

datatype file_state = Unreadable string | Readable "csv_record list"

datatype exn = FileNotFoundError | Other_Error string

record world =
  files :: "(string \<times> file_state) list"
  reads :: nat
  stdout :: "string list"
  stderr :: "string list"

definition read_csv :: "string \<Rightarrow> world \<Rightarrow> (exn + csv_record list) \<times> world" where
  "read_csv path w =
     (case map_of (files w) path of
        None \<Rightarrow> Inl FileNotFoundError
      | Some (Unreadable e) \<Rightarrow> Inl (Other_Error e)
      | Some (Readable recs) \<Rightarrow> Inr recs,
      w\<lparr>reads := reads w + 1\<rparr>)"

definition print :: "string \<Rightarrow> world \<Rightarrow> world" where
  "print msg w = w\<lparr>stdout := stdout w @ [msg]\<rparr>"

definition csv_path :: string where
  "csv_path = ''swiggy state .csv''"

definition not_found_message :: string where
  "not_found_message =
     ''Error: '' @ [CHR 0x27] @ ''swiggy state .csv'' @ [CHR 0x27] @
     '' not found. Make sure the file is in the same folder as app.py''"

text \<open>
  An exception that leaves the module ends the process, and the interpreter reports it
  on \<open>stderr\<close> with a traceback: a header, for every active call the place of the
  call and the text of its line, and last the text of the exception. The call of the
  module itself is on line 16; the lines that give places (they depend on where the
  program is installed) and the calls inside the library are left out.
\<close>

definition line_16 :: string where
  "line_16 =
     ''    df = pd.read_csv('' @ [CHR 0x27] @ ''swiggy state .csv'' @ [CHR 0x27] @ '')''"

definition traceback :: "string \<Rightarrow> string list" where
  "traceback e = [''Traceback (most recent call last):'', line_16, e]"

definition report :: "string list \<Rightarrow> world \<Rightarrow> world" where
  "report lines w = w\<lparr>stderr := stderr w @ lines\<rparr>"

text \<open>
  Lines 15 to 27. The \<open>except\<close> clause names \<open>FileNotFoundError\<close> only: it prints
  and calls \<open>exit()\<close>; any other exception of \<open>read_csv\<close> leaves the module
  uncaught.
\<close>

datatype outcome = Loaded app | Exited | Uncaught exn

definition load_data :: "(string \<rightharpoonup> real) \<Rightarrow> world \<Rightarrow> outcome \<times> world" where
  "load_data parse w =
     (case read_csv csv_path w of
        (Inl FileNotFoundError, w1) \<Rightarrow> (Exited, print not_found_message w1)
      | (Inl (Other_Error e), w1) \<Rightarrow> (Uncaught (Other_Error e), report (traceback e) w1)
      | (Inr recs, w1) \<Rightarrow>
          (let cleaned = load parse recs
           in (Loaded \<lparr>df = cleaned, all_cuisines = cuisine_vocabulary cleaned\<rparr>, w1)))"


subsection \<open>Example data\<close>

text \<open>The three rows of the end-to-end example of the specification.\<close>

abbreviation row_A :: row where
  "row_A \<equiv> \<lparr>Restaurant = Some ''A'', State = ''Maharashtra'', City = ''Pune'', Price = 300,
     Avg_ratings = 4.2, Food_type = ''Pizza, Burger''\<rparr>"

abbreviation row_B :: row where
  "row_B \<equiv> \<lparr>Restaurant = Some ''B'', State = ''Maharashtra'', City = ''Mumbai'', Price = 800,
     Avg_ratings = 3.9, Food_type = ''Biryani''\<rparr>"

abbreviation row_C :: row where
  "row_C \<equiv> \<lparr>Restaurant = Some ''C'', State = ''Karnataka'', City = ''Bengaluru'', Price = 500,
     Avg_ratings = 4.5, Food_type = ''Pizza''\<rparr>"

text \<open>
  Three records of a CSV file: one that is complete, one whose state field is empty, and
  one whose price is not a number.
\<close>

abbreviation record_A :: csv_record where
  "record_A \<equiv> \<lparr>f_Restaurant = ''A'', f_State = ''Maharashtra'', f_City = ''Pune'',
     f_Price = ''300'', f_Avg_ratings = ''4.2'', f_Food_type = ''Pizza, Burger''\<rparr>"

abbreviation record_no_state :: csv_record where
  "record_no_state \<equiv> \<lparr>f_Restaurant = ''D'', f_State = '''', f_City = ''Pune'',
     f_Price = ''300'', f_Avg_ratings = ''4.2'', f_Food_type = ''Pizza''\<rparr>"

abbreviation record_bad_price :: csv_record where
  "record_bad_price \<equiv> \<lparr>f_Restaurant = ''E'', f_State = ''Goa'', f_City = ''Panaji'',
     f_Price = ''cheap'', f_Avg_ratings = ''4.2'', f_Food_type = ''Pizza''\<rparr>"

subsection \<open>Properties of the filter\<close>

lemma select_rows_map: "select_rows rs (map p rs) = filter p rs"
  by (induction rs) (simp_all add: select_rows_def)

lemma str_in_sublist: "str_in needle hay = sublist needle hay"
  by (induction hay) (simp_all add: sublist_Cons_right)

lemma filter_price_ok:
  "filter_price (lo # hi # rest) rs =
     Inr (Frame (filter (\<lambda>r. lo \<le> Price r \<and> Price r \<le> hi) rs))"
proof -
  have "map2 (\<and>) (map (\<lambda>p. lo \<le> p) (map Price rs)) (map (\<lambda>p. p \<le> hi) (map Price rs))
        = map (\<lambda>r. lo \<le> Price r \<and> Price r \<le> hi) rs"
    by (induction rs) simp_all
  then show ?thesis
    by (simp add: filter_price_def item_def select_rows_map)
qed

lemma filter_price_short: "length pr < 2 \<Longrightarrow> filter_price pr rs = Inl IndexError"
  by (cases pr; cases "tl pr") (auto simp: filter_price_def item_def)

lemma filter_isin_Frame:
  "filter_isin name sel s (Frame rs) =
     Inr (Frame (filter (\<lambda>r. \<not> truthy s \<or> sel r \<in> set (chosen s)) rs))"
proof -
  have "isin (map sel rs) vals = map (\<lambda>r. sel r \<in> set vals) rs" for vals
    by (simp add: isin_def)
  then show ?thesis
    by (simp add: filter_isin_def select_rows_map)
qed

text \<open>
  The cuisine filter on a frame with columns never raises; its result holds the rows that
  pass, but it is the frame without columns when there was no row to test.
\<close>

lemma filter_cuisines_Frame:
  "\<exists>f. filter_cuisines s (Frame rs) = Inr f \<and>
       frame_rows f =
         filter (\<lambda>r. \<not> truthy s \<or> (\<exists>c \<in> set (chosen s). sublist c (Food_type r))) rs"
proof (cases "truthy s \<and> rs \<noteq> []")
  case True
  have "map (\<lambda>x. list_ex (\<lambda>c. str_in c x) (chosen s)) (map Food_type rs)
        = map (\<lambda>r. \<exists>c \<in> set (chosen s). sublist c (Food_type r)) rs"
    by (simp add: list_ex_iff str_in_sublist)
  with True show ?thesis
    by (simp add: filter_cuisines_def apply_bool_def select_rows_map del: map_map)
next
  case False
  then show ?thesis
    by (auto simp: filter_cuisines_def apply_bool_def)
qed

lemma filter_cuisines_no_rows:
  "truthy s \<Longrightarrow> filter_cuisines s (Frame []) = Inr No_Columns"
  by (simp add: filter_cuisines_def apply_bool_def)

lemma filtered_df_rows:
  assumes "truthy ss \<or> truthy cs \<or> truthy cu"
  shows "\<exists>f. filtered_df base ss cs cu (lo # hi # rest) = Inr f \<and>
     frame_rows f = filter (\<lambda>r. lo \<le> Price r \<and> Price r \<le> hi
        \<and> (\<not> truthy ss \<or> State r \<in> set (chosen ss))
        \<and> (\<not> truthy cs \<or> City r \<in> set (chosen cs))
        \<and> (\<not> truthy cu \<or> (\<exists>c \<in> set (chosen cu). sublist c (Food_type r)))) base"
proof -
  let ?r2 = "filter (\<lambda>r. \<not> truthy cs \<or> City r \<in> set (chosen cs))
             (filter (\<lambda>r. \<not> truthy ss \<or> State r \<in> set (chosen ss))
               (filter (\<lambda>r. lo \<le> Price r \<and> Price r \<le> hi) base))"
  obtain f where f: "filter_cuisines cu (Frame ?r2) = Inr f"
    and rows: "frame_rows f =
      filter (\<lambda>r. \<not> truthy cu \<or> (\<exists>c \<in> set (chosen cu). sublist c (Food_type r))) ?r2"
    using filter_cuisines_Frame by blast
  from assms f have "filtered_df base ss cs cu (lo # hi # rest) = Inr f"
    by (auto simp: filtered_df_def filter_price_ok filter_isin_Frame)
  moreover have "frame_rows f = filter (\<lambda>r. lo \<le> Price r \<and> Price r \<le> hi
        \<and> (\<not> truthy ss \<or> State r \<in> set (chosen ss))
        \<and> (\<not> truthy cs \<or> City r \<in> set (chosen cs))
        \<and> (\<not> truthy cu \<or> (\<exists>c \<in> set (chosen cu). sublist c (Food_type r)))) base"
    unfolding rows by (simp add: conj_commute conj_left_commute cong: conj_cong)
  ultimately show ?thesis by blast
qed

lemma filtered_df_no_filter:
  "\<not> truthy ss \<Longrightarrow> \<not> truthy cs \<Longrightarrow> \<not> truthy cu \<Longrightarrow>
   filtered_df base ss cs cu pr = Inr (Frame base)"
  by (simp add: filtered_df_def copy_def)

lemma filtered_df_short:
  "truthy ss \<or> truthy cs \<or> truthy cu \<Longrightarrow> length pr < 2 \<Longrightarrow>
   filtered_df base ss cs cu pr = Inl IndexError"
  by (auto simp: filtered_df_def filter_price_short)

subsection \<open>Claims about the filter\<close>

text \<open>
  C1. When the state, city and cuisine selections are all empty (\<open>None\<close> or the empty
  list), the filter returns the whole base table unchanged, whatever the price range is,
  including a range that excludes every row or a list too short to be a range.
\<close>

theorem no_filter_returns_base:
  assumes "\<not> truthy ss" and "\<not> truthy cs" and "\<not> truthy cu"
  shows "filtered_df base ss cs cu pr = Inr (Frame base)"
  using assms by (rule filtered_df_no_filter)

theorem no_filter_returns_base_witness:
  "\<not> truthy None \<and> \<not> truthy (Some []) \<and>
   filtered_df [row_A, row_B, row_C] None (Some []) None [1000, 2000]
     = Inr (Frame [row_A, row_B, row_C])"
  using no_filter_returns_base [of None "Some []" None "[row_A, row_B, row_C]" "[1000, 2000]"]
  by simp

text \<open>
  C2. With at least one non-empty selection and a price range \<open>[lo, hi]\<close> (any list
  that starts with these two numbers), the filter returns a frame, and a row is among
  its rows exactly when it is a row of the base table whose price lies in
  \<open>[lo, hi]\<close>, whose state is selected or no state is, whose city is selected or no
  city is, and whose \<open>Food type\<close> string contains some selected cuisine as a
  substring or no cuisine is selected.
\<close>

theorem conjunctive_filtering:
  assumes "truthy ss \<or> truthy cs \<or> truthy cu"
  shows "\<exists>f. filtered_df base ss cs cu (lo # hi # rest) = Inr f \<and>
    (\<forall>r. r \<in> set (frame_rows f) \<longleftrightarrow>
       r \<in> set base \<and> lo \<le> Price r \<and> Price r \<le> hi
       \<and> (\<not> truthy ss \<or> State r \<in> set (chosen ss))
       \<and> (\<not> truthy cs \<or> City r \<in> set (chosen cs))
       \<and> (\<not> truthy cu \<or> (\<exists>c \<in> set (chosen cu). sublist c (Food_type r))))"
proof -
  from filtered_df_rows [OF assms, of base lo hi rest]
  obtain f where "filtered_df base ss cs cu (lo # hi # rest) = Inr f"
    and "frame_rows f = filter (\<lambda>r. lo \<le> Price r \<and> Price r \<le> hi
        \<and> (\<not> truthy ss \<or> State r \<in> set (chosen ss))
        \<and> (\<not> truthy cs \<or> City r \<in> set (chosen cs))
        \<and> (\<not> truthy cu \<or> (\<exists>c \<in> set (chosen cu). sublist c (Food_type r)))) base"
    by blast
  then show ?thesis by auto
qed

theorem conjunctive_filtering_witness:
  "truthy (Some [''Maharashtra'']) \<and>
   (\<exists>f. filtered_df [row_A, row_B, row_C] (Some [''Maharashtra'']) None (Some [''Piz''])
           [0, 1000] = Inr f
      \<and> row_A \<in> set (frame_rows f) \<and> row_B \<notin> set (frame_rows f)
      \<and> row_C \<notin> set (frame_rows f))"
proof -
  from conjunctive_filtering [of "Some [''Maharashtra'']" None "Some [''Piz'']"
      "[row_A, row_B, row_C]" 0 1000 "[]"]
  obtain f where
    f: "filtered_df [row_A, row_B, row_C] (Some [''Maharashtra'']) None (Some [''Piz''])
          [0, 1000] = Inr f"
    and mem: "\<And>r. r \<in> set (frame_rows f) \<longleftrightarrow>
       r \<in> set [row_A, row_B, row_C] \<and> 0 \<le> Price r \<and> Price r \<le> 1000
       \<and> (\<not> truthy (Some [''Maharashtra''])
            \<or> State r \<in> set (chosen (Some [''Maharashtra''])))
       \<and> (\<not> truthy None \<or> City r \<in> set (chosen None))
       \<and> (\<not> truthy (Some [''Piz''])
            \<or> (\<exists>c \<in> set (chosen (Some [''Piz''])). sublist c (Food_type r)))"
    by auto
  have "row_A \<in> set (frame_rows f)"
    unfolding mem by (simp add: sublist_code)
  moreover have "row_B \<notin> set (frame_rows f)"
    unfolding mem by (simp add: sublist_code)
  moreover have "row_C \<notin> set (frame_rows f)"
    unfolding mem by simp
  ultimately show ?thesis using f by simp
qed

text \<open>
  C7. Whenever the filter returns a frame, its rows are a subsequence of the base table:
  they keep the relative order they have there. The filter does return a frame whenever
  the price range has its two bounds.
\<close>

theorem filtered_view_order:
  "(filtered_df base ss cs cu pr = Inr f \<longrightarrow> subseq (frame_rows f) base) \<and>
   (2 \<le> length pr \<longrightarrow> (\<exists>g. filtered_df base ss cs cu pr = Inr g))"
proof (cases "truthy ss \<or> truthy cs \<or> truthy cu")
  case False
  then show ?thesis by (auto simp: filtered_df_no_filter)
next
  case True
  show ?thesis
  proof (cases "length pr < 2")
    case short: True
    with True show ?thesis by (simp add: filtered_df_short)
  next
    case False
    then obtain lo hi rest where pr: "pr = lo # hi # rest"
      by (cases pr; cases "tl pr") auto
    from filtered_df_rows [OF True, of base lo hi rest]
    show ?thesis unfolding pr by auto
  qed
qed

theorem filtered_view_order_witness:
  "filtered_df [row_A, row_B, row_C] None None (Some [''Pizza'']) [0, 1000]
     = Inr (Frame [row_A, row_C])
   \<and> subseq (frame_rows (Frame [row_A, row_C])) [row_A, row_B, row_C]"
proof -
  have h: "filtered_df [row_A, row_B, row_C] None None (Some [''Pizza'']) [0, 1000]
     = Inr (Frame [row_A, row_C])"
    by code_simp
  with filtered_view_order [of "[row_A, row_B, row_C]" None None "Some [''Pizza'']"
      "[0, 1000]" "Frame [row_A, row_C]"]
  show ?thesis by blast
qed

subsection \<open>Properties of the counting functions\<close>

lemma sorted_sort_desc: "sorted_wrt (\<lambda>p q. snd q \<le> snd p) (sort_desc ties ps)"
proof -
  have "sorted (map (\<lambda>p. (- int (snd p), ties ps (fst p))) (sort_desc ties ps))"
    unfolding sort_desc_def by (rule sorted_sort_key)
  then have "sorted_wrt (\<lambda>p q. (- int (snd p), ties ps (fst p)) \<le> (- int (snd q), ties ps (fst q)))
               (sort_desc ties ps)"
    by (simp add: sorted_map)
  then show ?thesis
    by (rule sorted_wrt_mono_rel [rotated]) (auto simp: less_eq_prod_def)
qed

lemma nlargest_bound: "length (nlargest n ps) \<le> n"
  by (simp add: nlargest_def)

lemma nlargest_sorted: "sorted_wrt (\<ge>) (map snd (nlargest n ps))"
proof -
  have "sorted (map (\<lambda>p. - int (snd p)) (sort_key (\<lambda>p. - int (snd p)) ps))"
    by (rule sorted_sort_key)
  then have "sorted_wrt (\<lambda>p q. snd q \<le> snd p) (sort_key (\<lambda>p. - int (snd p)) ps)"
    by (simp add: sorted_map)
  then show ?thesis
    unfolding nlargest_def sorted_wrt_map by (rule sorted_wrt_take)
qed

lemma unique_set: "set (unique xs) = set xs"
  by (simp add: unique_def)

lemma unique_distinct: "distinct (unique xs)"
  by (simp add: unique_def)

lemma city_counts_bound:
  "city_counts ties f = Inr xs \<Longrightarrow> length xs \<le> 10 \<and> sorted_wrt (\<ge>) (map snd xs)"
  by (cases f) (auto simp: city_counts_def nlargest_bound nlargest_sorted)

lemma cuisine_counts_bound:
  "cuisine_counts ties f = Inr xs \<Longrightarrow> length xs \<le> 10 \<and> sorted_wrt (\<ge>) (map snd xs)"
  by (cases f) (auto simp: cuisine_counts_def nlargest_bound nlargest_sorted)

lemma value_counts_Nil: "value_counts ties [] = []"
  by (simp add: value_counts_def unique_def sort_desc_def)

lemma nlargest_Nil: "nlargest n [] = []"
  by (simp add: nlargest_def)

text \<open>A frame that has its columns and no row gives three empty charts.\<close>

lemma build_figures_no_rows:
  "build_figures ties (Frame []) = Inr \<lparr>bar_fig = [], pie_fig = [], scatter_fig = []\<rparr>"
  by (simp add: build_figures_def city_counts_def cuisine_counts_def explode_def
      value_counts_Nil nlargest_Nil)

text \<open>The frame without columns makes the first column access raise.\<close>

lemma build_figures_No_Columns: "build_figures ties No_Columns = Inl (KeyError ''City'')"
  by (simp add: build_figures_def city_counts_def)

subsection \<open>Claims about the chart data\<close>

text \<open>
  C5. Whatever frame the two counting aggregations are given and however pandas orders
  equal counts, a result they return has at most 10 entries, ordered by decreasing
  count; and on every frame that has its columns both of them return a result.
\<close>

theorem aggregation_bound:
  "(city_counts ties f = Inr xs \<longrightarrow> length xs \<le> 10 \<and> sorted_wrt (\<ge>) (map snd xs)) \<and>
   (cuisine_counts ties f = Inr ys \<longrightarrow> length ys \<le> 10 \<and> sorted_wrt (\<ge>) (map snd ys)) \<and>
   (\<exists>xs' ys'. city_counts ties (Frame rs) = Inr xs' \<and> cuisine_counts ties (Frame rs) = Inr ys')"
  using city_counts_bound [of ties f xs] cuisine_counts_bound [of ties f ys]
  by (simp add: city_counts_def cuisine_counts_def)

theorem aggregation_bound_witness:
  "city_counts first_seen (Frame [row_A, row_B, row_C, row_A])
     = Inr [(''Pune'', 2), (''Mumbai'', 1), (''Bengaluru'', 1)] \<and>
   cuisine_counts first_seen (Frame [row_A, row_B, row_C, row_A])
     = Inr [(''Pizza'', 3), (''Burger'', 2), (''Biryani'', 1)] \<and>
   length [(''Pune'', 2::nat), (''Mumbai'', 1), (''Bengaluru'', 1)] \<le> 10 \<and>
   sorted_wrt (\<ge>) (map snd [(''Pune'', 2::nat), (''Mumbai'', 1), (''Bengaluru'', 1)]) \<and>
   length [(''Pizza'', 3::nat), (''Burger'', 2), (''Biryani'', 1)] \<le> 10 \<and>
   sorted_wrt (\<ge>) (map snd [(''Pizza'', 3::nat), (''Burger'', 2), (''Biryani'', 1)])"
proof -
  have c: "city_counts first_seen (Frame [row_A, row_B, row_C, row_A])
     = Inr [(''Pune'', 2), (''Mumbai'', 1), (''Bengaluru'', 1)]"
    by code_simp
  have k: "cuisine_counts first_seen (Frame [row_A, row_B, row_C, row_A])
     = Inr [(''Pizza'', 3), (''Burger'', 2), (''Biryani'', 1)]"
    by code_simp
  from aggregation_bound [of first_seen "Frame [row_A, row_B, row_C, row_A]"
      "[(''Pune'', 2), (''Mumbai'', 1), (''Bengaluru'', 1)]"
      "[(''Pizza'', 3), (''Burger'', 2), (''Biryani'', 1)]"] c k
  show ?thesis by blast
qed

text \<open>
  What \<open>update_graphs\<close> returns, and the inputs on which it raises \<open>KeyError\<close>: a
  cuisine is selected and no row of the base table passes the price, state and city
  tests.
\<close>

lemma update_graphs_result:
  "fst (update_graphs ties s a b c pr) =
     (case filtered_df (df s) a b c pr of Inl e \<Rightarrow> Inl e | Inr f \<Rightarrow> build_figures ties f)"
  by (simp add: update_graphs_def split: sum.split)

lemma update_graphs_key_error:
  assumes "truthy cu"
    and "filter (\<lambda>r. lo \<le> Price r \<and> Price r \<le> hi
           \<and> (\<not> truthy ss \<or> State r \<in> set (chosen ss))
           \<and> (\<not> truthy cs \<or> City r \<in> set (chosen cs))) (df s) = []"
  shows "fst (update_graphs ties s ss cs cu (lo # hi # rest)) = Inl (KeyError ''City'')"
proof -
  from assms(2)
  have "filter (\<lambda>r. \<not> truthy cs \<or> City r \<in> set (chosen cs))
          (filter (\<lambda>r. \<not> truthy ss \<or> State r \<in> set (chosen ss))
            (filter (\<lambda>r. lo \<le> Price r \<and> Price r \<le> hi) (df s))) = []"
    by (simp add: conj_commute conj_left_commute cong: conj_cong)
  with assms(1) have "filtered_df (df s) ss cs cu (lo # hi # rest) = Inr No_Columns"
    by (simp add: filtered_df_def filter_price_ok filter_isin_Frame filter_cuisines_no_rows
        del: filter_filter)
  then show ?thesis
    by (simp add: update_graphs_result build_figures_No_Columns)
qed

text \<open>
  C6. The claim is that an empty filtered view gives three empty charts and no error.
  That holds for a frame that has its columns (\<open>build_figures_no_rows\<close>; the last
  conjunct below reaches it through the state filter). It fails when a cuisine is
  selected and no row is left for the cuisine filter to test: the mask built by
  \<open>Series.apply\<close> has dtype \<open>object\<close>, indexing with it drops every column, and
  the access to \<open>City\<close> on line 150 raises \<open>KeyError\<close>. Here no price lies in
  the range from 1000 to 2000.
\<close>

theorem empty_view_key_error:
  "filtered_df [row_A, row_B, row_C] None None (Some [''Pizza'']) [1000, 2000] = Inr No_Columns \<and>
   frame_rows No_Columns = [] \<and>
   city_counts ties No_Columns = Inl (KeyError ''City'') \<and>
   fst (update_graphs ties
          \<lparr>df = [row_A, row_B, row_C], all_cuisines = [''Biryani'', ''Burger'', ''Pizza'']\<rparr>
          None None (Some [''Pizza'']) [1000, 2000]) = Inl (KeyError ''City'') \<and>
   fst (update_graphs ties
          \<lparr>df = [row_A, row_B, row_C], all_cuisines = [''Biryani'', ''Burger'', ''Pizza'']\<rparr>
          (Some [''Goa'']) None None [0, 1000])
     = Inr \<lparr>bar_fig = [], pie_fig = [], scatter_fig = []\<rparr>"
proof -
  have a: "filtered_df [row_A, row_B, row_C] None None (Some [''Pizza'']) [1000, 2000]
             = Inr No_Columns"
    by code_simp
  have b: "filtered_df [row_A, row_B, row_C] (Some [''Goa'']) None None [0, 1000]
             = Inr (Frame [])"
    by code_simp
  from a b show ?thesis
    by (simp add: update_graphs_result build_figures_No_Columns build_figures_no_rows
        city_counts_def)
qed

subsection \<open>Claims about the city options\<close>

lemma cities_options_values:
  "sts \<noteq> [] \<Longrightarrow> map opt_value (fst (set_cities_options s (Some sts)))
     = sort (unique (map City (filter (\<lambda>r. State r \<in> set sts) (df s))))"
proof -
  have "isin (map State (df s)) sts = map (\<lambda>r. State r \<in> set sts) (df s)"
    by (simp add: isin_def)
  then show "sts \<noteq> [] \<Longrightarrow> ?thesis"
    by (simp add: set_cities_options_def select_rows_map comp_def Let_def)
qed

lemma cities_options_labels:
  "map opt_label (fst (set_cities_options s sel)) = map opt_value (fst (set_cities_options s sel))"
  by (simp add: set_cities_options_def Let_def comp_def)

lemma cities_options_df_only:
  "df s = df s' \<Longrightarrow> fst (set_cities_options s sel) = fst (set_cities_options s' sel)"
  by (simp add: set_cities_options_def Let_def)

lemma cities_of_states:
  "{City r | r. r \<in> set rs \<and> State r \<in> set sts}
     = set (map City (filter (\<lambda>r. State r \<in> set sts) rs))"
  by auto

text \<open>
  C3. Without a selected state (\<open>None\<close> or the empty list) the callback returns no
  option. With selected states it returns one option per city, label and value both the
  city: the values are sorted, free of duplicates, and are exactly the cities of the
  base rows whose state is selected. The result depends on the base table only.
\<close>

theorem cascade_correctness:
  "fst (set_cities_options s None) = [] \<and> fst (set_cities_options s (Some [])) = [] \<and>
   (sts \<noteq> [] \<longrightarrow>
      sorted (map opt_value (fst (set_cities_options s (Some sts)))) \<and>
      distinct (map opt_value (fst (set_cities_options s (Some sts)))) \<and>
      set (map opt_value (fst (set_cities_options s (Some sts))))
        = {City r | r. r \<in> set (df s) \<and> State r \<in> set sts} \<and>
      map opt_label (fst (set_cities_options s (Some sts)))
        = map opt_value (fst (set_cities_options s (Some sts)))) \<and>
   (df s = df s' \<longrightarrow> fst (set_cities_options s sel) = fst (set_cities_options s' sel))"
proof -
  have "fst (set_cities_options s None) = []" "fst (set_cities_options s (Some [])) = []"
    by (simp_all add: set_cities_options_def)
  moreover have "set (sort (unique (map City (filter (\<lambda>r. State r \<in> set sts) (df s)))))
     = {City r | r. r \<in> set (df s) \<and> State r \<in> set sts}"
    by (simp add: unique_set cities_of_states)
  moreover have "distinct (sort (unique (map City (filter (\<lambda>r. State r \<in> set sts) (df s)))))"
    by (simp add: unique_distinct)
  ultimately show ?thesis
    using cities_options_df_only [of s s' sel]
    by (simp add: cities_options_values cities_options_labels del: set_map set_filter)
qed

theorem cascade_correctness_witness:
  "[''Maharashtra''] \<noteq> [] \<and>
   sorted (map opt_value (fst (set_cities_options
      \<lparr>df = [row_A, row_B, row_C], all_cuisines = []\<rparr> (Some [''Maharashtra''])))) \<and>
   distinct (map opt_value (fst (set_cities_options
      \<lparr>df = [row_A, row_B, row_C], all_cuisines = []\<rparr> (Some [''Maharashtra''])))) \<and>
   ''Pune'' \<in> set (map opt_value (fst (set_cities_options
      \<lparr>df = [row_A, row_B, row_C], all_cuisines = []\<rparr> (Some [''Maharashtra''])))) \<and>
   ''Bengaluru'' \<notin> set (map opt_value (fst (set_cities_options
      \<lparr>df = [row_A, row_B, row_C], all_cuisines = []\<rparr> (Some [''Maharashtra'']))))"
proof -
  let ?out = "map opt_value (fst (set_cities_options
      \<lparr>df = [row_A, row_B, row_C], all_cuisines = []\<rparr> (Some [''Maharashtra''])))"
  from cascade_correctness [of "\<lparr>df = [row_A, row_B, row_C], all_cuisines = []\<rparr>"
      "[''Maharashtra'']"]
  have s: "sorted ?out" and d: "distinct ?out"
    and m: "set ?out = {City r | r. r \<in> set [row_A, row_B, row_C] \<and> State r \<in> set [''Maharashtra'']}"
    by simp_all
  from m have "set ?out = {''Pune'', ''Mumbai''}"
    unfolding cities_of_states by simp
  with s d show ?thesis by simp
qed

subsection \<open>Properties of the callbacks on objects\<close>

text \<open>
  Every step of a callback leaves a process that has grown out of the one it started
  from, and the frame behind the reference it returns is the frame that the same step
  computes on values. An in-place operation on \<open>df\<close> is not such a step.
\<close>

lemma grown_refl: "grown p p"
  by (simp add: grown_def)

lemma grown_trans: "grown p p' \<Longrightarrow> grown p' p'' \<Longrightarrow> grown p p''"
  by (auto simp: grown_def)

lemma new_object_spec:
  "new_object f p = (r, p') \<Longrightarrow> grown p p' \<and> read p' r = f"
  by (auto simp: new_object_def grown_def)

lemma getitem_run_spec:
  "getitem_run r m p = (r', p') \<Longrightarrow> grown p p' \<and> read p' r' = getitem (read p r) m"
  unfolding getitem_run_def by (rule new_object_spec)

lemma copy_run_spec:
  "copy_run r p = (r', p') \<Longrightarrow> grown p p' \<and> read p' r' = copy (read p r)"
  unfolding copy_run_def by (rule new_object_spec)

lemma filter_isin_run_spec:
  assumes "filter_isin_run name sel s r p = (res, p')"
  shows "grown p p' \<and> view p' res = filter_isin name sel s (read p r)"
  using assms
  by (auto simp: filter_isin_run_def filter_isin_def view_def grown_refl
      split: if_splits sum.splits prod.splits dest: getitem_run_spec)

lemma filter_cuisines_run_spec:
  assumes "filter_cuisines_run s r p = (res, p')"
  shows "grown p p' \<and> view p' res = filter_cuisines s (read p r)"
  using assms
  by (auto simp: filter_cuisines_run_def filter_cuisines_def view_def grown_refl
      split: if_splits sum.splits prod.splits dest: getitem_run_spec)

lemma filter_price_run_grown:
  "filter_price_run pr r p = (res, p') \<Longrightarrow> grown p p'"
  by (auto simp: filter_price_run_def grown_refl
      split: sum.splits prod.splits dest: getitem_run_spec)

lemma filter_price_run_spec:
  assumes "filter_price_run pr r p = (res, p')" and "read p r = Frame rs"
  shows "view p' res = filter_price pr rs"
  using assms
  by (auto simp: filter_price_run_def filter_price_def view_def
      split: sum.splits prod.splits dest: getitem_run_spec)

lemma filtered_df_run_grown:
  "filtered_df_run p ss cs cu pr = (res, p') \<Longrightarrow> grown p p'"
  by (auto simp: filtered_df_run_def split: if_splits sum.splits prod.splits
      dest!: copy_run_spec filter_price_run_grown filter_isin_run_spec filter_cuisines_run_spec
      intro: grown_trans)

lemma filtered_df_run_spec:
  assumes "filtered_df_run p ss cs cu pr = (res, p')" and "module_df p = Frame base"
  shows "view p' res = filtered_df base ss cs cu pr"
proof (cases "\<not> truthy ss \<and> \<not> truthy cs \<and> \<not> truthy cu")
  case True
  with assms show ?thesis
    by (auto simp: filtered_df_run_def filtered_df_def view_def split: prod.splits
        dest: copy_run_spec)
next
  case False
  obtain res0 p0 where s0: "filter_price_run pr Module_df p = (res0, p0)"
    by (cases "filter_price_run pr Module_df p")
  from filter_price_run_spec [OF s0] assms(2)
  have v0: "filter_price pr base = view p0 res0" by simp
  show ?thesis
  proof (cases res0)
    case (Inl e)
    with False s0 v0 assms(1) show ?thesis
      by (auto simp: filtered_df_run_def filtered_df_def view_def)
  next
    case r0: (Inr r0)
    obtain res1 p1 where s1: "filter_isin_run ''State'' State ss r0 p0 = (res1, p1)"
      by (cases "filter_isin_run ''State'' State ss r0 p0")
    from filter_isin_run_spec [OF s1]
    have v1: "filter_isin ''State'' State ss (read p0 r0) = view p1 res1" by simp
    from r0 v0 have f0: "filter_price pr base = Inr (read p0 r0)"
      by (simp add: view_def)
    show ?thesis
    proof (cases res1)
      case (Inl e)
      with False s0 s1 r0 v1 f0 assms(1) show ?thesis
        by (auto simp: filtered_df_run_def filtered_df_def view_def)
    next
      case r1: (Inr r1)
      obtain res2 p2 where s2: "filter_isin_run ''City'' City cs r1 p1 = (res2, p2)"
        by (cases "filter_isin_run ''City'' City cs r1 p1")
      from filter_isin_run_spec [OF s2]
      have v2: "filter_isin ''City'' City cs (read p1 r1) = view p2 res2" by simp
      from r1 v1 have f1: "filter_isin ''State'' State ss (read p0 r0) = Inr (read p1 r1)"
        by (simp add: view_def)
      show ?thesis
      proof (cases res2)
        case (Inl e)
        with False s0 s1 s2 r0 r1 v2 f0 f1 assms(1) show ?thesis
          by (auto simp: filtered_df_run_def filtered_df_def view_def)
      next
        case r2: (Inr r2)
        from r2 v2 have f2: "filter_isin ''City'' City cs (read p1 r1) = Inr (read p2 r2)"
          by (simp add: view_def)
        from False s0 s1 s2 r0 r1 r2 assms(1)
        have "filter_cuisines_run cu r2 p2 = (res, p')"
          by (auto simp: filtered_df_run_def)
        from filter_cuisines_run_spec [OF this] False f0 f1 f2 show ?thesis
          by (auto simp: filtered_df_def)
      qed
    qed
  qed
qed

lemma filtered_view_spec:
  "module_df p = Frame base \<Longrightarrow> filtered_view p ss cs cu pr = filtered_df base ss cs cu pr"
  by (cases "filtered_df_run p ss cs cu pr") (simp add: filtered_view_def filtered_df_run_spec)

lemma update_graphs_run_grown: "grown p (snd (update_graphs_run ties p ss cs cu pr))"
  by (cases "filtered_df_run p ss cs cu pr")
     (auto simp: update_graphs_run_def split: sum.splits dest: filtered_df_run_grown)

lemma update_graphs_run_spec:
  assumes "module_df p = Frame base"
  shows "fst (update_graphs_run ties p ss cs cu pr)
           = fst (update_graphs ties \<lparr>df = base, all_cuisines = voc\<rparr> ss cs cu pr)"
proof -
  obtain res p' where s: "filtered_df_run p ss cs cu pr = (res, p')"
    by (cases "filtered_df_run p ss cs cu pr")
  from filtered_df_run_spec [OF s assms] s show ?thesis
    by (auto simp: update_graphs_run_def update_graphs_result view_def split: sum.splits)
qed

lemma set_cities_options_run_grown: "grown p (snd (set_cities_options_run p sel))"
  by (auto simp: set_cities_options_run_def grown_refl split: sum.splits prod.splits
      dest: getitem_run_spec)

lemma set_cities_options_run_spec:
  assumes "module_df p = Frame base"
  shows "fst (set_cities_options_run p sel)
           = Inr (fst (set_cities_options \<lparr>df = base, all_cuisines = voc\<rparr> sel))"
  using assms
  by (auto simp: set_cities_options_run_def set_cities_options_def Let_def
      split: sum.splits prod.splits dest!: getitem_run_spec)

lemma dispatch_grown: "grown p (dispatch ties p ev)"
  by (cases ev) (simp_all add: set_cities_options_run_grown update_graphs_run_grown)

lemma serve_grown: "grown p (serve ties p evs)"
  unfolding serve_def
proof (induction evs arbitrary: p)
  case Nil
  show ?case by (simp add: grown_refl)
next
  case (Cons ev evs)
  from dispatch_grown [of p ties ev] Cons [of "dispatch ties p ev"] show ?case
    by (auto intro: grown_trans)
qed

lemma overwrite_df: "module_df (overwrite Module_df f p) = f"
  by simp

subsection \<open>Claims about the module state\<close>

text \<open>
  C9. Neither callback changes the base table: in the process that a call of
  \<open>set_cities_options\<close> or \<open>update_graphs\<close> leaves, and in the process after any
  sequence of such calls, \<open>df\<close> refers to the frame it referred to before, and every
  frame that existed before is unchanged; the calls only add the frames they create.
\<close>

theorem callbacks_leave_df:
  "module_df (snd (set_cities_options_run p sel)) = module_df p \<and>
   prefix (created p) (created (snd (set_cities_options_run p sel))) \<and>
   module_df (snd (update_graphs_run ties p a b c pr)) = module_df p \<and>
   prefix (created p) (created (snd (update_graphs_run ties p a b c pr))) \<and>
   module_df (serve ties p evs) = module_df p \<and>
   prefix (created p) (created (serve ties p evs))"
  using set_cities_options_run_grown [of p sel] update_graphs_run_grown [of p ties a b c pr]
    serve_grown [of p ties evs]
  by (simp add: grown_def)

theorem callbacks_leave_df_witness:
  "module_df (snd (set_cities_options_run
       (start \<lparr>df = [row_A, row_B, row_C], all_cuisines = [''Pizza'']\<rparr>)
       (Some [''Maharashtra''])))
     = Frame [row_A, row_B, row_C] \<and>
   module_df (snd (update_graphs_run first_seen
       (start \<lparr>df = [row_A, row_B, row_C], all_cuisines = [''Pizza'']\<rparr>)
       None None (Some [''Pizza'']) [1000, 2000]))
     = Frame [row_A, row_B, row_C] \<and>
   created (snd (update_graphs_run first_seen
       (start \<lparr>df = [row_A, row_B, row_C], all_cuisines = [''Pizza'']\<rparr>)
       None None (Some [''Pizza'']) [1000, 2000]))
     = [Frame [], No_Columns]"
proof -
  have "created (snd (update_graphs_run first_seen
       (start \<lparr>df = [row_A, row_B, row_C], all_cuisines = [''Pizza'']\<rparr>)
       None None (Some [''Pizza'']) [1000, 2000]))
     = [Frame [], No_Columns]"
    by code_simp
  with callbacks_leave_df [of "start \<lparr>df = [row_A, row_B, row_C], all_cuisines = [''Pizza'']\<rparr>"
      "Some [''Maharashtra'']" first_seen None None "Some [''Pizza'']" "[1000, 2000]" "[]"]
  show ?thesis by (simp add: start_def)
qed

text \<open>
  C10. \<open>update_graphs\<close> is deterministic: in any two processes in which \<open>df\<close>
  holds the same base table, the same arguments give the same filtered view and the same
  result (the same chart data, or the same error), whatever other frames the processes
  hold; in particular a call gives the same after any sequence of callbacks as before
  it. The tie rule is that of the pandas the process runs, the same for both calls.
\<close>

theorem update_graphs_deterministic:
  assumes "module_df p1 = Frame base" and "module_df p2 = Frame base"
  shows "fst (update_graphs_run ties p1 a b c pr) = fst (update_graphs_run ties p2 a b c pr) \<and>
    filtered_view p1 a b c pr = filtered_view p2 a b c pr \<and>
    fst (update_graphs_run ties (serve ties p1 evs) a b c pr)
      = fst (update_graphs_run ties p1 a b c pr) \<and>
    filtered_view (serve ties p1 evs) a b c pr = filtered_view p1 a b c pr"
proof -
  from serve_grown [of p1 ties evs] assms(1)
  have "module_df (serve ties p1 evs) = Frame base"
    by (simp add: grown_def)
  with assms show ?thesis
    by (simp add: update_graphs_run_spec [where voc = "[]"] filtered_view_spec)
qed

theorem update_graphs_deterministic_witness:
  "module_df (start \<lparr>df = [row_A, row_B, row_C], all_cuisines = [''Pizza'']\<rparr>)
     = Frame [row_A, row_B, row_C] \<and>
   module_df \<lparr>module_df = Frame [row_A, row_B, row_C], created = [No_Columns, Frame [row_B]]\<rparr>
     = Frame [row_A, row_B, row_C] \<and>
   fst (update_graphs_run first_seen
          \<lparr>module_df = Frame [row_A, row_B, row_C], created = [No_Columns, Frame [row_B]]\<rparr>
          (Some [''Maharashtra'']) None None [0, 1000])
     = Inr \<lparr>bar_fig = [(''Pune'', 1), (''Mumbai'', 1)],
            pie_fig = [(''Pizza'', 1), (''Burger'', 1), (''Biryani'', 1)],
            scatter_fig = [(300, 4.2, Some ''A''), (800, 3.9, Some ''B'')]\<rparr> \<and>
   fst (update_graphs_run first_seen
          (serve first_seen (start \<lparr>df = [row_A, row_B, row_C], all_cuisines = [''Pizza'']\<rparr>)
             [Set_Cities (Some [''Maharashtra'']),
              Update_Graphs None None (Some [''Pizza'']) [1000, 2000],
              Update_Graphs (Some [''Karnataka'']) None None [0, 1000]])
          (Some [''Maharashtra'']) None None [0, 1000])
     = Inr \<lparr>bar_fig = [(''Pune'', 1), (''Mumbai'', 1)],
            pie_fig = [(''Pizza'', 1), (''Burger'', 1), (''Biryani'', 1)],
            scatter_fig = [(300, 4.2, Some ''A''), (800, 3.9, Some ''B'')]\<rparr>"
proof -
  have e: "fst (update_graphs_run first_seen
          (start \<lparr>df = [row_A, row_B, row_C], all_cuisines = [''Pizza'']\<rparr>)
          (Some [''Maharashtra'']) None None [0, 1000])
     = Inr \<lparr>bar_fig = [(''Pune'', 1), (''Mumbai'', 1)],
            pie_fig = [(''Pizza'', 1), (''Burger'', 1), (''Biryani'', 1)],
            scatter_fig = [(300, 4.2, Some ''A''), (800, 3.9, Some ''B'')]\<rparr>"
    by code_simp
  have m: "module_df (start \<lparr>df = [row_A, row_B, row_C], all_cuisines = [''Pizza'']\<rparr>)
     = Frame [row_A, row_B, row_C]"
    by (simp add: start_def)
  have n: "module_df \<lparr>module_df = Frame [row_A, row_B, row_C],
             created = [No_Columns, Frame [row_B]]\<rparr>
     = Frame [row_A, row_B, row_C]"
    by simp
  from update_graphs_deterministic [OF m n, of first_seen "Some [''Maharashtra'']" None None
      "[0, 1000]"
      "[Set_Cities (Some [''Maharashtra'']),
        Update_Graphs None None (Some [''Pizza'']) [1000, 2000],
        Update_Graphs (Some [''Karnataka'']) None None [0, 1000]]"] e m
  show ?thesis by simp
qed

subsection \<open>Claims about loading\<close>

lemma read_cell_empty: "read_cell [] = None"
  by (simp add: read_cell_def na_values_def)

lemma read_cell_Some: "read_cell txt = Some s \<Longrightarrow> s = txt \<and> txt \<noteq> []"
  by (auto simp: read_cell_def na_values_def split: if_splits)

lemma clean_row_Some:
  assumes "clean_row parse (read_record c) = Some r"
  shows "to_numeric parse (read_cell (f_Price c)) = Some (Price r)"
    and "to_numeric parse (read_cell (f_Avg_ratings c)) = Some (Avg_ratings r)"
    and "f_State c = State r" and "f_City c = City r" and "f_Food_type c = Food_type r"
    and "State r \<noteq> []" and "City r \<noteq> []" and "Food_type r \<noteq> []"
  using assms
  by (auto simp: clean_row_def read_record_def split: option.splits dest: read_cell_Some)

lemma clean_row_None:
  assumes "to_numeric parse (read_cell (f_Price c)) = None
     \<or> to_numeric parse (read_cell (f_Avg_ratings c)) = None
     \<or> f_State c = [] \<or> f_City c = [] \<or> f_Food_type c = []"
  shows "clean_row parse (read_record c) = None"
  using assms
  by (auto simp: clean_row_def read_record_def read_cell_empty split: option.splits)

lemma load_Nil: "load parse [] = []"
  by (simp add: load_def clean_def)

lemma load_Cons:
  "load parse (c # cs) =
     (case clean_row parse (read_record c) of
        None \<Rightarrow> load parse cs
      | Some r \<Rightarrow> r # load parse cs)"
  by (simp add: load_def clean_def split: option.split)

lemma set_load:
  "r \<in> set (load parse recs) \<longleftrightarrow> (\<exists>c \<in> set recs. clean_row parse (read_record c) = Some r)"
  by (induction recs) (auto simp: load_Nil load_Cons split: option.splits)

lemma load_filter:
  "(\<And>c. c \<in> set recs \<Longrightarrow> \<not> P c \<Longrightarrow> clean_row parse (read_record c) = None) \<Longrightarrow>
   load parse (filter P recs) = load parse recs"
  by (induction recs) (auto simp: load_Nil load_Cons split: option.splits)

text \<open>
  C4. Every row of the base table that \<open>load\<close> produces has a state, a city and a
  food type that are not empty, and a price and a rating that are the numbers to which
  the fields of some record of the file were coerced. Records with a price or a rating
  that does not coerce to a number, or with an empty state, city or food type, contribute
  nothing: removing them from the input does not change the base table.
\<close>

theorem load_invariant:
  "(r \<in> set (load parse recs) \<longrightarrow>
      State r \<noteq> [] \<and> City r \<noteq> [] \<and> Food_type r \<noteq> [] \<and>
      (\<exists>c \<in> set recs.
          to_numeric parse (read_cell (f_Price c)) = Some (Price r) \<and>
          to_numeric parse (read_cell (f_Avg_ratings c)) = Some (Avg_ratings r) \<and>
          f_State c = State r \<and> f_City c = City r \<and> f_Food_type c = Food_type r)) \<and>
   load parse
     (filter (\<lambda>c. \<not> (to_numeric parse (read_cell (f_Price c)) = None
                     \<or> to_numeric parse (read_cell (f_Avg_ratings c)) = None
                     \<or> f_State c = [] \<or> f_City c = [] \<or> f_Food_type c = [])) recs)
     = load parse recs"
proof (intro conjI impI)
  assume "r \<in> set (load parse recs)"
  then obtain c where c: "c \<in> set recs" "clean_row parse (read_record c) = Some r"
    by (auto simp: set_load)
  from clean_row_Some [OF c(2)] show "State r \<noteq> []" "City r \<noteq> []" "Food_type r \<noteq> []"
    by simp_all
  from clean_row_Some [OF c(2)] c(1)
  show "\<exists>c \<in> set recs.
          to_numeric parse (read_cell (f_Price c)) = Some (Price r) \<and>
          to_numeric parse (read_cell (f_Avg_ratings c)) = Some (Avg_ratings r) \<and>
          f_State c = State r \<and> f_City c = City r \<and> f_Food_type c = Food_type r"
    by blast
next
  show "load parse
     (filter (\<lambda>c. \<not> (to_numeric parse (read_cell (f_Price c)) = None
                     \<or> to_numeric parse (read_cell (f_Avg_ratings c)) = None
                     \<or> f_State c = [] \<or> f_City c = [] \<or> f_Food_type c = [])) recs)
     = load parse recs"
    by (rule load_filter) (simp add: clean_row_None)
qed

theorem load_invariant_witness:
  "row_A \<in> set (load [''300'' \<mapsto> 300, ''4.2'' \<mapsto> 4.2]
       [record_no_state, record_A, record_bad_price]) \<and>
   State row_A \<noteq> [] \<and> City row_A \<noteq> [] \<and> Food_type row_A \<noteq> [] \<and>
   length (load [''300'' \<mapsto> 300, ''4.2'' \<mapsto> 4.2]
       [record_no_state, record_A, record_bad_price]) = 1"
proof -
  have h: "load [''300'' \<mapsto> 300, ''4.2'' \<mapsto> 4.2]
       [record_no_state, record_A, record_bad_price] = [row_A]"
    by code_simp
  then have "row_A \<in> set (load [''300'' \<mapsto> 300, ''4.2'' \<mapsto> 4.2]
       [record_no_state, record_A, record_bad_price])"
    by simp
  with load_invariant [of row_A "[''300'' \<mapsto> 300, ''4.2'' \<mapsto> 4.2]"
      "[record_no_state, record_A, record_bad_price]"] h
  show ?thesis
    by simp
qed

lemma message_names_file: "sublist csv_path not_found_message"
  by code_simp

lemma traceback_names_file: "list_ex (sublist csv_path) (traceback e)"
proof -
  have "sublist csv_path line_16"
    by code_simp
  then show ?thesis
    by (simp add: traceback_def)
qed

text \<open>
  C8. If the file cannot be read, the load ends without a base table after one attempt
  to read, and a message that names the file is written: by the program on
  \<open>stdout\<close> when the file is missing, and by the interpreter on \<open>stderr\<close>, whose
  traceback shows line 16, when the file is present but \<open>read_csv\<close> raises
  another exception.
\<close>

theorem load_failure:
  "(map_of (files w) csv_path = None \<longrightarrow>
      load_data parse w
        = (Exited, w\<lparr>reads := reads w + 1, stdout := stdout w @ [not_found_message]\<rparr>)
      \<and> sublist csv_path not_found_message) \<and>
   (map_of (files w) csv_path = Some (Unreadable e) \<longrightarrow>
      load_data parse w
        = (Uncaught (Other_Error e), w\<lparr>reads := reads w + 1, stderr := stderr w @ traceback e\<rparr>)
      \<and> list_ex (sublist csv_path) (traceback e))"
  by (simp add: load_data_def read_csv_def print_def report_def message_names_file
      traceback_names_file)

theorem load_failure_witness:
  "map_of (files \<lparr>files = [], reads = 0, stdout = [], stderr = []\<rparr>) csv_path = None \<and>
   load_data Map.empty \<lparr>files = [], reads = 0, stdout = [], stderr = []\<rparr>
     = (Exited, \<lparr>files = [], reads = 1, stdout = [not_found_message], stderr = []\<rparr>) \<and>
   sublist csv_path not_found_message \<and>
   map_of (files \<lparr>files = [(''swiggy state .csv'', Unreadable ''No columns to parse from file'')],
            reads = 0, stdout = [], stderr = []\<rparr>) csv_path
     = Some (Unreadable ''No columns to parse from file'') \<and>
   load_data Map.empty
       \<lparr>files = [(''swiggy state .csv'', Unreadable ''No columns to parse from file'')],
        reads = 0, stdout = [], stderr = []\<rparr>
     = (Uncaught (Other_Error ''No columns to parse from file''),
        \<lparr>files = [(''swiggy state .csv'', Unreadable ''No columns to parse from file'')],
         reads = 1, stdout = [],
         stderr = [''Traceback (most recent call last):'', line_16,
                   ''No columns to parse from file'']\<rparr>) \<and>
   list_ex (sublist csv_path) (traceback ''No columns to parse from file'')"
  using load_failure [where w = "\<lparr>files = [], reads = 0, stdout = [], stderr = []\<rparr>"
        and parse = Map.empty]
    load_failure [where w = "\<lparr>files = [(''swiggy state .csv'',
            Unreadable ''No columns to parse from file'')],
            reads = 0, stdout = [], stderr = []\<rparr>"
        and e = "''No columns to parse from file''" and parse = Map.empty]
  by (simp add: csv_path_def traceback_def)

end
